theory Spec2Isabelle
  imports Main "HOL-Library.Word"
begin

unbundle bit_operations_syntax

section \<open>The MMA8491Q accelerometer driver (drivers/iio/accel/mma8491.c)\<close>

text \<open>
  The driver is a sequence of calls into the kernel (I2C bus, GPIO, mutex, IIO core).
  The embedding threads an explicit \<open>world\<close> through every function of the source and
  records each such call, in program order, in the \<open>trace\<close> of the world. What the
  collaborators answer (the value of each bus read, the clock) is the environment
  \<open>env\<close>, a parameter of every function.
\<close>

subsection \<open>Machine types and constants\<close>

type_synonym u8 = "8 word"
type_synonym u16 = "16 word"
type_synonym s32 = "32 word"   \<comment> \<open>a C \<open>int\<close>; read with \<open>sint\<close>, compared with \<open><s\<close>\<close>

definition MMA8491_STATUS :: u8 where "MMA8491_STATUS = 0x00"
definition MMA8491_OUT_X :: u8 where "MMA8491_OUT_X = 0x01"
definition MMA8491_OUT_Y :: u8 where "MMA8491_OUT_Y = 0x03"
definition MMA8491_OUT_Z :: u8 where "MMA8491_OUT_Z = 0x05"

definition BIT :: "nat \<Rightarrow> s32" where "BIT n = push_bit n 1"

definition MMA8491_STATUS_DRDY :: s32 where
  "MMA8491_STATUS_DRDY = (BIT 2 OR BIT 1 OR BIT 0)"

text \<open>Modelled from the spec: the headers that define these constants
  (asm-generic/errno-base.h, linux/iio/iio.h, linux/irqreturn.h) are not under src/.
  The errors are the ones the spec names (a bus or timeout error, Busy, an invalid
  query); the numbers are those of the kernel.\<close>

definition EIO :: s32 where "EIO = 5"
definition EBUSY :: s32 where "EBUSY = 16"
definition EINVAL :: s32 where "EINVAL = 22"
definition IIO_VAL_INT :: s32 where "IIO_VAL_INT = 1"
definition IIO_CHAN_INFO_RAW :: int where "IIO_CHAN_INFO_RAW = 0"
definition IIO_CHAN_INFO_SCALE :: int where "IIO_CHAN_INFO_SCALE = 2"
definition IIO_CHAN_INFO_CALIBBIAS :: int where "IIO_CHAN_INFO_CALIBBIAS = 5"
definition IIO_CHAN_INFO_SAMP_FREQ :: int where "IIO_CHAN_INFO_SAMP_FREQ = 11"

datatype irqreturn = IRQ_NONE | IRQ_HANDLED | IRQ_WAKE_THREAD

subsection \<open>Device handle, channels, world and environment\<close>

text \<open>\<open>struct mma8491_data\<close>: only \<open>rst_gpio\<close> is ever read by the code modelled here;
  \<open>client\<close> and \<open>lock\<close> are the one bus connection and the one mutex of the events below.\<close>

record mma8491_data =
  ctrl_reg1 :: u8
  data_cfg :: u8
  rst_gpio :: nat

text \<open>\<open>struct iio_chan_spec\<close> as \<open>MMA8491_CHANNEL(axis, idx)\<close> fills it in. The two
  info masks say which queries the channel offers: bit \<open>n\<close> set means that the query
  with mask \<open>n\<close> is offered.\<close>

datatype iio_chan_type = IIO_ACCEL | IIO_TIMESTAMP

datatype iio_modifier = IIO_MOD_X | IIO_MOD_Y | IIO_MOD_Z

datatype iio_endian = IIO_CPU | IIO_BE | IIO_LE

record iio_chan_spec =
  type :: iio_chan_type
  modified :: nat
  channel2 :: iio_modifier
  info_mask_separate :: "32 word"
  info_mask_shared_by_type :: "32 word"
  scan_index :: nat
  sign :: char
  realbits :: nat
  storagebits :: nat
  shift :: nat
  endianness :: iio_endian

definition MMA8491_CHANNEL :: "iio_modifier \<Rightarrow> nat \<Rightarrow> iio_chan_spec" where
  "MMA8491_CHANNEL axis idx =
     \<lparr>type = IIO_ACCEL,
      modified = 1,
      channel2 = axis,
      info_mask_separate = BIT (nat IIO_CHAN_INFO_RAW) OR BIT (nat IIO_CHAN_INFO_CALIBBIAS),
      info_mask_shared_by_type = BIT (nat IIO_CHAN_INFO_SAMP_FREQ) OR BIT (nat IIO_CHAN_INFO_SCALE),
      scan_index = idx,
      sign = CHR ''s'',
      realbits = 12,
      storagebits = 16,
      shift = 4,
      endianness = IIO_BE\<rparr>"

text \<open>The three axis channels of \<open>mma8491_channels\<close>; the soft timestamp channel that
  follows them offers no query.\<close>

definition mma8491_channels :: "iio_chan_spec list" where
  "mma8491_channels =
     [MMA8491_CHANNEL IIO_MOD_X 0, MMA8491_CHANNEL IIO_MOD_Y 1, MMA8491_CHANNEL IIO_MOD_Z 2]"

text \<open>Every call that leaves the driver, in the order of the source.\<close>

datatype event =
    Gpio_Set nat bool               \<comment> \<open>\<open>gpio_set_value_cansleep(gpio, value)\<close>\<close>
  | Mutex_Lock                      \<comment> \<open>\<open>mutex_lock(&data->lock)\<close>\<close>
  | Mutex_Unlock                    \<comment> \<open>\<open>mutex_unlock(&data->lock)\<close>\<close>
  | Read_Byte_Data u8               \<comment> \<open>\<open>i2c_smbus_read_byte_data(client, reg)\<close>\<close>
  | Read_Block_Data u8 nat          \<comment> \<open>\<open>i2c_smbus_read_i2c_block_data(client, reg, len, buf)\<close>\<close>
  | Msleep nat                      \<comment> \<open>\<open>msleep(ms)\<close>\<close>
  | Dev_Err string                  \<comment> \<open>\<open>dev_err(dev, msg)\<close>\<close>
  | Push_To_Buffers "u8 list" int   \<comment> \<open>\<open>iio_push_to_buffers_with_timestamp(dev, buf, ts)\<close>\<close>
  | Trigger_Notify_Done             \<comment> \<open>\<open>iio_trigger_notify_done(trig)\<close>\<close>

record world =
  gpio :: "nat \<Rightarrow> bool"        \<comment> \<open>level of every GPIO line\<close>
  buffer_enabled :: bool       \<comment> \<open>what \<open>iio_buffer_enabled(indio_dev)\<close> reads\<close>
  byte_reads :: nat            \<comment> \<open>number of status-register transactions issued so far\<close>
  trace :: "event list"

record env =
  byte_result :: "nat \<Rightarrow> s32"  \<comment> \<open>return value of the k-th \<open>i2c_smbus_read_byte_data\<close>\<close>
  block_result :: s32          \<comment> \<open>return value of \<open>i2c_smbus_read_i2c_block_data\<close>\<close>
  block_buf :: "nat \<Rightarrow> u8"     \<comment> \<open>the bytes of \<open>buf\<close>, by offset, after the block read\<close>
  time_ns :: int               \<comment> \<open>\<open>iio_get_time_ns()\<close>\<close>

subsection \<open>Collaborators\<close>

text \<open>Modelled from the spec: the bus layer's single-byte read-by-register
  (\<open>i2c_smbus_read_byte_data\<close>) is not under src/. It returns a negative errno or the
  byte read; here the environment supplies the return value of each call in turn.\<close>

definition i2c_smbus_read_byte_data :: "env \<Rightarrow> u8 \<Rightarrow> world \<Rightarrow> s32 \<times> world" where
  "i2c_smbus_read_byte_data e reg w =
     (byte_result e (byte_reads w),
      w\<lparr>byte_reads := Suc (byte_reads w), trace := trace w @ [Read_Byte_Data reg]\<rparr>)"

text \<open>Modelled from the spec: the bus layer's multi-byte block read-by-register
  (\<open>i2c_smbus_read_i2c_block_data\<close>) is not under src/. It returns a negative errno or
  the number of bytes read; the bytes land in \<open>buf\<close>, which is \<open>block_buf\<close>.\<close>

definition i2c_smbus_read_i2c_block_data :: "env \<Rightarrow> u8 \<Rightarrow> nat \<Rightarrow> world \<Rightarrow> s32 \<times> world" where
  "i2c_smbus_read_i2c_block_data e reg len w =
     (block_result e, w\<lparr>trace := trace w @ [Read_Block_Data reg len]\<rparr>)"

text \<open>Modelled from the spec: the enable line is one active-high output
  (\<open>gpio_set_value_cansleep\<close> is not under src/).\<close>

definition gpio_set_value_cansleep :: "nat \<Rightarrow> bool \<Rightarrow> world \<Rightarrow> world" where
  "gpio_set_value_cansleep g v w =
     w\<lparr>gpio := (gpio w)(g := v), trace := trace w @ [Gpio_Set g v]\<rparr>"

definition mutex_lock :: "world \<Rightarrow> world" where
  "mutex_lock w = w\<lparr>trace := trace w @ [Mutex_Lock]\<rparr>"

definition mutex_unlock :: "world \<Rightarrow> world" where
  "mutex_unlock w = w\<lparr>trace := trace w @ [Mutex_Unlock]\<rparr>"

definition msleep :: "nat \<Rightarrow> world \<Rightarrow> world" where
  "msleep ms w = w\<lparr>trace := trace w @ [Msleep ms]\<rparr>"

definition dev_err :: "string \<Rightarrow> world \<Rightarrow> world" where
  "dev_err msg w = w\<lparr>trace := trace w @ [Dev_Err msg]\<rparr>"

definition iio_buffer_enabled :: "world \<Rightarrow> bool" where
  "iio_buffer_enabled w = buffer_enabled w"

definition iio_get_time_ns :: "env \<Rightarrow> int" where
  "iio_get_time_ns e = time_ns e"

definition iio_push_to_buffers_with_timestamp :: "u8 list \<Rightarrow> int \<Rightarrow> world \<Rightarrow> world" where
  "iio_push_to_buffers_with_timestamp buf ts w = w\<lparr>trace := trace w @ [Push_To_Buffers buf ts]\<rparr>"

definition iio_trigger_notify_done :: "world \<Rightarrow> world" where
  "iio_trigger_notify_done w = w\<lparr>trace := trace w @ [Trigger_Notify_Done]\<rparr>"

text \<open>Modelled from the spec: \<open>be16_to_cpu\<close> is not under src/. The axis words are
  big-endian on the wire, so \<open>be16_to_cpu(buffer[i])\<close> is the 16-bit word whose most
  significant byte is at offset \<open>2 * i\<close> of the buffer, whatever the byte order of the
  host.\<close>

definition be16_to_cpu :: "(nat \<Rightarrow> u8) \<Rightarrow> nat \<Rightarrow> u16" where
  "be16_to_cpu buf i = word_cat (buf (2 * i)) (buf (2 * i + 1))"

text \<open>Modelled from the spec: \<open>sign_extend32(value, index)\<close> of linux/bitops.h is not
  under src/. The spec has it as the arithmetic sign-extension of a value from the bit
  position \<open>index\<close>; it is written here the way the kernel computes it, a left shift
  by \<open>31 - index\<close> (held in a \<open>u8\<close>) and an arithmetic right shift of the signed
  result by the same amount.\<close>

definition sign_extend32 :: "32 word \<Rightarrow> int \<Rightarrow> s32" where
  "sign_extend32 val index =
     (let shift = unat (word_of_int (31 - index) :: u8)
      in signed_drop_bit shift (push_bit shift val))"

subsection \<open>The ready poller: \<open>mma8491_drdy\<close>\<close>

text \<open>The \<open>while (tries-- > 0)\<close> loop; \<open>tries\<close> is the value the test reads.\<close>

function drdy_loop :: "int \<Rightarrow> env \<Rightarrow> world \<Rightarrow> s32 \<times> world" where
  "drdy_loop tries e w =
     (if tries > 0 then
        (case i2c_smbus_read_byte_data e MMA8491_STATUS w of (ret, w1) \<Rightarrow>
           if ret <s 0 then (ret, w1)
           else if (ret AND MMA8491_STATUS_DRDY) = MMA8491_STATUS_DRDY then (0, w1)
           else drdy_loop (tries - 1) e (msleep 20 w1))
      else (- EIO, dev_err (''data not ready'' @ [CHR 0x0A]) w))"
  by pat_completeness auto
termination
  by (relation "measure (\<lambda>(tries, e, w). nat tries)") auto

declare drdy_loop.simps [simp del]

definition mma8491_drdy :: "env \<Rightarrow> mma8491_data \<Rightarrow> world \<Rightarrow> s32 \<times> world" where
  "mma8491_drdy e d w = drdy_loop 150 e w"

subsection \<open>The burst reader: \<open>mma8491_read\<close>\<close>

definition mma8491_read :: "env \<Rightarrow> mma8491_data \<Rightarrow> world \<Rightarrow> s32 \<times> world" where
  "mma8491_read e d w =
     (case mma8491_drdy e d w of (ret, w1) \<Rightarrow>
        if ret <s 0 then (ret, w1)
        else i2c_smbus_read_i2c_block_data e MMA8491_OUT_X (3 * 2) w1)"

subsection \<open>The on-demand read: \<open>mma8491_read_raw\<close>\<close>

text \<open>The decoding expression of the source,
  \<open>sign_extend32(be16_to_cpu(buffer[chan->scan_index]) >> 2, 13)\<close>, on the 16-bit word:
  the \<open>u16\<close> is promoted to \<open>int\<close> and shifted as an \<open>int\<close>.\<close>

definition mma8491_decode :: "u16 \<Rightarrow> s32" where
  "mma8491_decode x = sign_extend32 (signed_drop_bit 2 (ucast x :: s32)) 13"

text \<open>The result is the return value, what was stored through \<open>val\<close> (if anything)
  and the world. The parameter \<open>msk\<close> is the source's \<open>mask\<close>.\<close>

definition mma8491_read_raw ::
  "env \<Rightarrow> mma8491_data \<Rightarrow> world \<Rightarrow> iio_chan_spec \<Rightarrow> int \<Rightarrow> s32 \<times> s32 option \<times> world" where
  "mma8491_read_raw e d w chan msk =
     (if msk = IIO_CHAN_INFO_RAW then
        (if iio_buffer_enabled w then (- EBUSY, None, w)
         else
           let w1 = gpio_set_value_cansleep (rst_gpio d) True w;
               w2 = mutex_lock w1
           in case mma8491_read e d w2 of (ret, w3) \<Rightarrow>
             let w4 = mutex_unlock w3;
                 w5 = gpio_set_value_cansleep (rst_gpio d) False w4
             in if ret <s 0 then (ret, None, w5)
                else (IIO_VAL_INT,
                      Some (mma8491_decode (be16_to_cpu (block_buf e) (scan_index chan))),
                      w5))
      else (- EINVAL, None, w))"

subsection \<open>The triggered pipeline: \<open>mma8491_trigger_handler\<close>\<close>

text \<open>The 16-byte buffer handed to the IIO core: its bytes after the block read.\<close>

definition mma8491_trigger_handler :: "env \<Rightarrow> mma8491_data \<Rightarrow> world \<Rightarrow> irqreturn \<times> world" where
  "mma8491_trigger_handler e d w =
     (case mma8491_read e d w of (ret, w1) \<Rightarrow>
        let w2 = (if ret <s 0 then w1
                  else iio_push_to_buffers_with_timestamp
                         (map (block_buf e) [0..<16]) (iio_get_time_ns e) w1)
        in (IRQ_HANDLED, iio_trigger_notify_done w2))"

subsection \<open>The callbacks the driver registers: \<open>mma8491_info\<close>\<close>

text \<open>\<open>struct iio_info\<close>: a callback the initialiser leaves out is a null pointer.\<close>

record iio_info =
  read_raw ::
    "(env \<Rightarrow> mma8491_data \<Rightarrow> world \<Rightarrow> iio_chan_spec \<Rightarrow> int \<Rightarrow> s32 \<times> s32 option \<times> world) option"
  write_raw ::
    "(env \<Rightarrow> mma8491_data \<Rightarrow> world \<Rightarrow> iio_chan_spec \<Rightarrow> int \<Rightarrow> int \<Rightarrow> int \<Rightarrow> s32 \<times> world) option"

definition mma8491_info :: iio_info where
  "mma8491_info = \<lparr>read_raw = Some mma8491_read_raw, write_raw = None\<rparr>"

subsection \<open>Events emitted by a call, and the shape of a poll\<close>

text \<open>The events a call appended to the trace: those of the world after it, without
  the ones of the world before it.\<close>

definition emitted :: "world \<Rightarrow> world \<Rightarrow> event list" where
  "emitted w w' = drop (length (trace w)) (trace w')"

text \<open>\<open>k\<close> unsuccessful poll attempts: a status read and the 20 ms sleep, \<open>k\<close> times.\<close>

definition poll_rounds :: "nat \<Rightarrow> event list" where
  "poll_rounds k = concat (replicate k [Read_Byte_Data MMA8491_STATUS, Msleep 20])"

text \<open>The two tests of the loop body both fail on \<open>ret\<close>: no error, not all ready.\<close>

definition keeps_polling :: "s32 \<Rightarrow> bool" where
  "keeps_polling ret \<longleftrightarrow> \<not> ret <s 0 \<and> (ret AND MMA8491_STATUS_DRDY) \<noteq> MMA8491_STATUS_DRDY"

definition polled :: "nat \<Rightarrow> world \<Rightarrow> world" where
  "polled k w = w\<lparr>byte_reads := byte_reads w + k, trace := trace w @ poll_rounds k\<rparr>"

definition status_reads :: "event list \<Rightarrow> nat" where
  "status_reads evs = length (filter (\<lambda>ev. ev = Read_Byte_Data MMA8491_STATUS) evs)"

fun poll_event :: "event \<Rightarrow> bool" where
  "poll_event (Read_Byte_Data reg) = (reg = MMA8491_STATUS)"
| "poll_event (Msleep ms) = (ms = 20)"
| "poll_event (Dev_Err msg) = True"
| "poll_event _ = False"

fun read_phase_event :: "event \<Rightarrow> bool" where
  "read_phase_event (Read_Block_Data reg len) = (reg = MMA8491_OUT_X \<and> len = 6)"
| "read_phase_event ev = poll_event ev"

fun is_block_read :: "event \<Rightarrow> bool" where
  "is_block_read (Read_Block_Data reg len) = True"
| "is_block_read _ = False"

fun is_push :: "event \<Rightarrow> bool" where
  "is_push (Push_To_Buffers buf ts) = True"
| "is_push _ = False"

subsection \<open>The specification's side\<close>

text \<open>A status byte signals fresh data when its three low-order bits are all set.\<close>

definition data_ready :: "u8 \<Rightarrow> bool" where
  "data_ready b \<longleftrightarrow> bit b 0 \<and> bit b 1 \<and> bit b 2"

text \<open>The decoding rule in the specification's words, on the value of the raw
  big-endian word: the 14-bit field is the word without its two low bits, read as a
  two's complement number whose sign is bit 13.\<close>

definition spec_decode :: "int \<Rightarrow> int" where
  "spec_decode raw = (let field = raw div 4 in if field < 2 ^ 13 then field else field - 2 ^ 14)"

text \<open>The least value a signed 14-bit field holds.\<close>

definition spec_field_min :: int where
  "spec_field_min = - (2 ^ 13)"

text \<open>The reported value in the specification's words: the decoded value plus the
  channel's calibration bias.\<close>

definition spec_reported_value :: "int \<Rightarrow> int \<Rightarrow> int" where
  "spec_reported_value bias raw = spec_decode raw + bias"

text \<open>The power invariant in the specification's words, replayed over a list of
  events from the level \<open>lvl\<close> of line \<open>g\<close>: every bus read finds the line asserted,
  and the line is deasserted at the end.\<close>

fun reads_powered :: "nat \<Rightarrow> bool \<Rightarrow> event list \<Rightarrow> bool" where
  "reads_powered g lvl [] = (\<not> lvl)"
| "reads_powered g lvl (Gpio_Set g' v # evs) = reads_powered g (if g' = g then v else lvl) evs"
| "reads_powered g lvl (Read_Byte_Data reg # evs) = (lvl \<and> reads_powered g lvl evs)"
| "reads_powered g lvl (Read_Block_Data reg len # evs) = (lvl \<and> reads_powered g lvl evs)"
| "reads_powered g lvl (ev # evs) = reads_powered g lvl evs"

text \<open>\<open>precedes a b evs\<close>: \<open>b\<close> occurs in \<open>evs\<close>, and \<open>a\<close> occurs before its first
  occurrence.\<close>

fun precedes :: "event \<Rightarrow> event \<Rightarrow> event list \<Rightarrow> bool" where
  "precedes a b [] = False"
| "precedes a b (ev # evs) =
     (if ev = b then False else if ev = a then b \<in> set evs else precedes a b evs)"

text \<open>The lock boundary in the specification's words: the lock is taken before the
  enable line is asserted and released after it is deasserted.\<close>

definition lock_spans_power_window :: "nat \<Rightarrow> event list \<Rightarrow> bool" where
  "lock_spans_power_window g evs \<longleftrightarrow>
     precedes Mutex_Lock (Gpio_Set g True) evs \<and> precedes (Gpio_Set g False) Mutex_Unlock evs"

subsection \<open>Two callers\<close>

text \<open>A run of two callers is a list of events, each with the caller that issued it.
  \<open>events_of c run\<close> is what caller \<open>c\<close> did, in order. \<open>mutex_respected\<close> replays the
  run from the holder of the mutex: it is taken only when free and released only by its
  holder. \<open>touched_under_lock\<close> is the clause of the specification that nobody else
  touches the bus or the enable line while the lock is held: it finds a bus read or a
  change of the enable line by a caller other than the holder.\<close>

datatype caller = Caller_A | Caller_B

definition events_of :: "caller \<Rightarrow> (caller \<times> event) list \<Rightarrow> event list" where
  "events_of c run = map snd (filter (\<lambda>p. fst p = c) run)"

fun mutex_respected :: "caller option \<Rightarrow> (caller \<times> event) list \<Rightarrow> bool" where
  "mutex_respected holder [] = True"
| "mutex_respected holder ((c, Mutex_Lock) # run) =
     (holder = None \<and> mutex_respected (Some c) run)"
| "mutex_respected holder ((c, Mutex_Unlock) # run) =
     (holder = Some c \<and> mutex_respected None run)"
| "mutex_respected holder (p # run) = mutex_respected holder run"

fun touches_device :: "event \<Rightarrow> bool" where
  "touches_device (Gpio_Set g v) = True"
| "touches_device (Read_Byte_Data reg) = True"
| "touches_device (Read_Block_Data reg len) = True"
| "touches_device ev = False"

fun touched_under_lock :: "caller option \<Rightarrow> (caller \<times> event) list \<Rightarrow> bool" where
  "touched_under_lock holder [] = False"
| "touched_under_lock holder ((c, Mutex_Lock) # run) = touched_under_lock (Some c) run"
| "touched_under_lock holder ((c, Mutex_Unlock) # run) = touched_under_lock None run"
| "touched_under_lock holder ((c, ev) # run) =
     (case holder of
        None \<Rightarrow> touched_under_lock holder run
      | Some h \<Rightarrow> (touches_device ev \<and> c \<noteq> h) \<or> touched_under_lock holder run)"

text \<open>Two on-demand reads of the device with enable line 7, caller B arriving while
  caller A holds the mutex: B asserts the line and waits for the mutex; A finishes,
  releases the mutex and deasserts the line; B takes the mutex and reads.\<close>

definition racing_reads :: "(caller \<times> event) list" where
  "racing_reads =
     [(Caller_A, Gpio_Set 7 True), (Caller_A, Mutex_Lock),
      (Caller_B, Gpio_Set 7 True),
      (Caller_A, Read_Byte_Data 0x00), (Caller_A, Read_Block_Data 0x01 6),
      (Caller_A, Mutex_Unlock), (Caller_A, Gpio_Set 7 False),
      (Caller_B, Mutex_Lock),
      (Caller_B, Read_Byte_Data 0x00), (Caller_B, Read_Block_Data 0x01 6),
      (Caller_B, Mutex_Unlock), (Caller_B, Gpio_Set 7 False)]"

subsection \<open>Concrete devices and environments\<close>

definition w0 :: world where
  "w0 = \<lparr>gpio = (\<lambda>g. False), buffer_enabled = False, byte_reads = 0, trace = []\<rparr>"

definition w_streaming :: world where
  "w_streaming = \<lparr>gpio = (\<lambda>g. False), buffer_enabled = True, byte_reads = 0, trace = []\<rparr>"

definition d0 :: mma8491_data where
  "d0 = \<lparr>ctrl_reg1 = 0, data_cfg = 0, rst_gpio = 7\<rparr>"

definition sample_bytes :: "nat \<Rightarrow> u8" where
  "sample_bytes k = (if k < 6 then [0x00, 0x04, 0x3F, 0xFC, 0x80, 0x00] ! k else 0)"

text \<open>A bus whose status reads answer \<open>f\<close> and whose block read delivers six bytes.\<close>

definition e_status :: "(nat \<Rightarrow> s32) \<Rightarrow> env" where
  "e_status f = \<lparr>byte_result = f, block_result = 6, block_buf = sample_bytes, time_ns = 1000\<rparr>"

text \<open>A bus whose status is ready at once and whose block read fails with
  \<open>-EREMOTEIO\<close>.\<close>

definition e_block_error :: env where
  "e_block_error =
     \<lparr>byte_result = (\<lambda>k. 7), block_result = - 121, block_buf = sample_bytes, time_ns = 1000\<rparr>"

section \<open>Properties\<close>

subsection \<open>Status bytes\<close>

lemma DRDY_7: "MMA8491_STATUS_DRDY = 7"
  by (simp add: MMA8491_STATUS_DRDY_def BIT_def)

lemma status_byte_nonneg: "\<not> (ucast (b :: u8) :: s32) <s 0"
  by (simp add: word_sless_alt signed_ucast_eq signed_take_bit_int_eq_self_iff bit_uint_iff)

lemma and_7_iff: "(x :: s32) AND 7 = 7 \<longleftrightarrow> bit x 0 \<and> bit x 1 \<and> bit x 2"
proof -
  have m: "(7 :: s32) = mask 3"
    by (simp add: mask_eq_exp_minus_1)
  have "x AND mask 3 = mask 3 \<longleftrightarrow> (\<forall>n<3. bit x n)"
  proof
    assume h: "x AND mask 3 = mask 3"
    show "\<forall>n<3. bit x n"
    proof (intro allI impI)
      fix n :: nat
      assume "n < 3"
      then have "bit (x AND mask 3) n \<longleftrightarrow> bit x n"
        by (simp add: bit_and_iff bit_mask_iff)
      moreover from \<open>n < 3\<close> have "bit (mask 3 :: s32) n"
        by (simp add: bit_mask_iff)
      ultimately show "bit x n"
        using h by simp
    qed
  next
    assume "\<forall>n<3. bit x n"
    then show "x AND mask 3 = mask 3"
      by (auto simp add: bit_eq_iff bit_and_iff bit_mask_iff)
  qed
  also have "\<dots> \<longleftrightarrow> bit x 0 \<and> bit x 1 \<and> bit x 2"
    by (auto simp add: less_Suc_eq numeral_3_eq_3 numeral_2_eq_2)
  finally show ?thesis
    by (simp add: m)
qed

lemma status_byte_ready:
  "((ucast (b :: u8) :: s32) AND MMA8491_STATUS_DRDY) = MMA8491_STATUS_DRDY \<longleftrightarrow> data_ready b"
  by (simp add: DRDY_7 and_7_iff data_ready_def bit_ucast_iff)

lemma keeps_polling_status_byte: "keeps_polling (ucast (b :: u8)) \<longleftrightarrow> \<not> data_ready b"
  by (simp add: keeps_polling_def status_byte_nonneg status_byte_ready)

subsection \<open>The poll loop, one attempt at a time\<close>

lemma poll_rounds_Suc:
  "poll_rounds (Suc k) = [Read_Byte_Data MMA8491_STATUS, Msleep 20] @ poll_rounds k"
  by (simp add: poll_rounds_def)

lemma polled_0: "polled 0 w = w"
  by (simp add: polled_def poll_rounds_def)

lemma polled_Suc:
  "polled k (msleep 20 (snd (i2c_smbus_read_byte_data e MMA8491_STATUS w))) = polled (Suc k) w"
  by (simp add: polled_def msleep_def i2c_smbus_read_byte_data_def poll_rounds_Suc)

lemma polled_polled: "polled j (polled k w) = polled (k + j) w"
  by (simp add: polled_def poll_rounds_def replicate_add)

lemma byte_reads_polled: "byte_reads (polled k w) = byte_reads w + k"
  by (simp add: polled_def)

lemma drdy_loop_step:
  assumes "0 < t" "keeps_polling (byte_result e (byte_reads w))"
  shows "drdy_loop t e w = drdy_loop (t - 1) e (polled 1 w)"
proof -
  have "polled 1 w = msleep 20 (snd (i2c_smbus_read_byte_data e MMA8491_STATUS w))"
    using polled_Suc [of 0 e w] by (simp add: polled_0)
  with assms show ?thesis
    by (subst drdy_loop.simps) (simp add: keeps_polling_def i2c_smbus_read_byte_data_def)
qed

lemma drdy_loop_skip:
  assumes "0 \<le> t" and "\<forall>j<k. keeps_polling (byte_result e (byte_reads w + j))"
  shows "drdy_loop (int k + t) e w = drdy_loop t e (polled k w)"
  using assms(2)
proof (induction k arbitrary: w)
  case 0
  then show ?case by (simp add: polled_0)
next
  case (Suc k)
  from Suc.prems have first: "keeps_polling (byte_result e (byte_reads w))"
    by (metis add.right_neutral zero_less_Suc)
  have rest: "\<forall>j<k. keeps_polling (byte_result e (byte_reads (polled 1 w) + j))"
    using Suc.prems by (auto simp add: byte_reads_polled)
  have "drdy_loop (int (Suc k) + t) e w = drdy_loop (int k + t) e (polled 1 w)"
    using drdy_loop_step [OF _ first, of "int (Suc k) + t"] assms(1) by simp
  also have "\<dots> = drdy_loop t e (polled k (polled 1 w))"
    by (rule Suc.IH [OF rest])
  finally show ?case by (simp add: polled_polled)
qed

lemma drdy_loop_timeout:
  "drdy_loop 0 e w = (- EIO, dev_err (''data not ready'' @ [CHR 0x0A]) w)"
  by (subst drdy_loop.simps) simp

lemma drdy_loop_ready:
  assumes "0 < t" "\<not> byte_result e (byte_reads w) <s 0"
    "(byte_result e (byte_reads w) AND MMA8491_STATUS_DRDY) = MMA8491_STATUS_DRDY"
  shows "drdy_loop t e w = (0, snd (i2c_smbus_read_byte_data e MMA8491_STATUS w))"
  using assms by (subst drdy_loop.simps) (simp add: i2c_smbus_read_byte_data_def)

lemma drdy_loop_error:
  assumes "0 < t" "byte_result e (byte_reads w) <s 0"
  shows "drdy_loop t e w =
    (byte_result e (byte_reads w), snd (i2c_smbus_read_byte_data e MMA8491_STATUS w))"
  using assms by (subst drdy_loop.simps) (simp add: i2c_smbus_read_byte_data_def)

subsection \<open>The three ways the poller ends\<close>

lemma drdy_at_ready:
  assumes "k < 150" "\<forall>j<k. keeps_polling (byte_result e (byte_reads w + j))"
    "\<not> byte_result e (byte_reads w + k) <s 0"
    "(byte_result e (byte_reads w + k) AND MMA8491_STATUS_DRDY) = MMA8491_STATUS_DRDY"
  shows "mma8491_drdy e d w =
    (0, w\<lparr>byte_reads := byte_reads w + k + 1,
          trace := trace w @ poll_rounds k @ [Read_Byte_Data MMA8491_STATUS]\<rparr>)"
proof -
  have "drdy_loop 150 e w = drdy_loop (150 - int k) e (polled k w)"
    using drdy_loop_skip [of "150 - int k" k e w] assms(1,2) by simp
  also have "\<dots> = (0, snd (i2c_smbus_read_byte_data e MMA8491_STATUS (polled k w)))"
    using assms by (intro drdy_loop_ready) (simp_all add: byte_reads_polled)
  finally show ?thesis
    by (simp add: mma8491_drdy_def i2c_smbus_read_byte_data_def polled_def)
qed

lemma drdy_at_error:
  assumes "k < 150" "\<forall>j<k. keeps_polling (byte_result e (byte_reads w + j))"
    "byte_result e (byte_reads w + k) <s 0"
  shows "mma8491_drdy e d w =
    (byte_result e (byte_reads w + k),
     w\<lparr>byte_reads := byte_reads w + k + 1,
       trace := trace w @ poll_rounds k @ [Read_Byte_Data MMA8491_STATUS]\<rparr>)"
proof -
  have "drdy_loop 150 e w = drdy_loop (150 - int k) e (polled k w)"
    using drdy_loop_skip [of "150 - int k" k e w] assms(1,2) by simp
  also have "\<dots> = (byte_result e (byte_reads (polled k w)),
      snd (i2c_smbus_read_byte_data e MMA8491_STATUS (polled k w)))"
    using assms by (intro drdy_loop_error) (simp_all add: byte_reads_polled)
  finally show ?thesis
    by (simp add: mma8491_drdy_def i2c_smbus_read_byte_data_def polled_def)
qed

lemma drdy_never_ready:
  assumes "\<forall>j<150. keeps_polling (byte_result e (byte_reads w + j))"
  shows "mma8491_drdy e d w =
    (- EIO, w\<lparr>byte_reads := byte_reads w + 150,
       trace := trace w @ poll_rounds 150 @ [Dev_Err (''data not ready'' @ [CHR 0x0A])]\<rparr>)"
proof -
  have "drdy_loop 150 e w = drdy_loop 0 e (polled 150 w)"
    using drdy_loop_skip [of 0 150 e w] assms by simp
  then show ?thesis
    by (simp add: mma8491_drdy_def drdy_loop_timeout dev_err_def polled_def)
qed

lemma emitted_append [simp]:
  "emitted w (w\<lparr>byte_reads := n, trace := trace w @ evs\<rparr>) = evs"
  "emitted w (w\<lparr>trace := trace w @ evs\<rparr>) = evs"
  "emitted w (w\<lparr>gpio := g, byte_reads := n, trace := trace w @ evs\<rparr>) = evs"
  by (simp_all add: emitted_def)

lemma status_reads_poll_rounds: "status_reads (poll_rounds k) = k"
  by (induction k) (simp_all add: status_reads_def poll_rounds_def)

lemma status_reads_append: "status_reads (xs @ ys) = status_reads xs + status_reads ys"
  by (simp add: status_reads_def)

text \<open>
  C2. For every sequence \<open>st\<close> of status bytes answered by the bus: if the three
  data-ready bits are all set at attempt \<open>k < 150\<close> and at no earlier attempt, the poller
  returns 0 after the status read of attempt \<open>k\<close>, having issued \<open>k + 1\<close> status reads,
  each but the last followed by a 20 ms sleep, and nothing after; if they are never all
  set in the first 150 attempts, the poller issues exactly 150 status reads, each
  followed by the 20 ms sleep, logs once and returns \<open>-EIO\<close>.
\<close>

theorem drdy_status_bytes:
  fixes st :: "nat \<Rightarrow> u8"
  assumes bytes: "\<forall>j<150. byte_result e (byte_reads w + j) = ucast (st j)"
  shows "(\<forall>k<150. data_ready (st k) \<and> (\<forall>j<k. \<not> data_ready (st j)) \<longrightarrow>
            mma8491_drdy e d w =
              (0, w\<lparr>byte_reads := byte_reads w + k + 1,
                    trace := trace w @ poll_rounds k @ [Read_Byte_Data MMA8491_STATUS]\<rparr>)
            \<and> status_reads (emitted w (snd (mma8491_drdy e d w))) = k + 1)
       \<and> ((\<forall>j<150. \<not> data_ready (st j)) \<longrightarrow>
            mma8491_drdy e d w =
              (- EIO, w\<lparr>byte_reads := byte_reads w + 150,
                 trace := trace w @ poll_rounds 150 @ [Dev_Err (''data not ready'' @ [CHR 0x0A])]\<rparr>)
            \<and> status_reads (emitted w (snd (mma8491_drdy e d w))) = 150)"
proof (intro conjI allI impI)
  fix k
  assume k: "k < 150" and r: "data_ready (st k) \<and> (\<forall>j<k. \<not> data_ready (st j))"
  from k r bytes have before: "\<forall>j<k. keeps_polling (byte_result e (byte_reads w + j))"
    by (simp add: keeps_polling_status_byte)
  from k bytes have at: "byte_result e (byte_reads w + k) = ucast (st k)"
    by simp
  show res: "mma8491_drdy e d w =
      (0, w\<lparr>byte_reads := byte_reads w + k + 1,
            trace := trace w @ poll_rounds k @ [Read_Byte_Data MMA8491_STATUS]\<rparr>)"
    using r by (intro drdy_at_ready k before) (simp_all add: at status_byte_nonneg status_byte_ready)
  show "status_reads (emitted w (snd (mma8491_drdy e d w))) = k + 1"
    unfolding res by (simp add: status_reads_append status_reads_poll_rounds) (simp add: status_reads_def)
next
  assume never: "\<forall>j<150. \<not> data_ready (st j)"
  with bytes have "\<forall>j<150. keeps_polling (byte_result e (byte_reads w + j))"
    by (simp add: keeps_polling_status_byte)
  then show res: "mma8491_drdy e d w =
      (- EIO, w\<lparr>byte_reads := byte_reads w + 150,
         trace := trace w @ poll_rounds 150 @ [Dev_Err (''data not ready'' @ [CHR 0x0A])]\<rparr>)"
    by (rule drdy_never_ready)
  show "status_reads (emitted w (snd (mma8491_drdy e d w))) = 150"
    unfolding res by (simp add: status_reads_append status_reads_poll_rounds) (simp add: status_reads_def)
qed

theorem drdy_status_bytes_witness:
  "mma8491_drdy (e_status (\<lambda>n. if n = 3 then 7 else 0)) d0 w0 =
     (0, w0\<lparr>byte_reads := 4, trace := poll_rounds 3 @ [Read_Byte_Data MMA8491_STATUS]\<rparr>)
   \<and> mma8491_drdy (e_status (\<lambda>n. 0)) d0 w0 =
     (- EIO, w0\<lparr>byte_reads := 150,
        trace := poll_rounds 150 @ [Dev_Err (''data not ready'' @ [CHR 0x0A])]\<rparr>)"
proof -
  have b1: "\<forall>j<150. byte_result (e_status (\<lambda>n. if n = 3 then 7 else 0)) (byte_reads w0 + j)
      = ucast ((\<lambda>n::nat. if n = 3 then 7 else 0 :: u8) j)"
    by (simp add: e_status_def w0_def)
  have r1: "data_ready ((\<lambda>n::nat. if n = 3 then 7 else 0 :: u8) 3)
      \<and> (\<forall>j<3. \<not> data_ready ((\<lambda>n::nat. if n = 3 then 7 else 0 :: u8) j))"
    by (simp add: data_ready_def)
  have b2: "\<forall>j<150. byte_result (e_status (\<lambda>n. 0)) (byte_reads w0 + j) = ucast ((\<lambda>n::nat. 0 :: u8) j)"
    by (simp add: e_status_def w0_def)
  have r2: "\<forall>j<150. \<not> data_ready ((\<lambda>n::nat. 0 :: u8) j)"
    by (simp add: data_ready_def)
  have k3: "(3 :: nat) < 150"
    by simp
  have t1: "mma8491_drdy (e_status (\<lambda>n. if n = 3 then 7 else 0)) d0 w0 =
      (0, w0\<lparr>byte_reads := byte_reads w0 + 3 + 1,
            trace := trace w0 @ poll_rounds 3 @ [Read_Byte_Data MMA8491_STATUS]\<rparr>)"
    using drdy_status_bytes [OF b1, of d0] k3 r1 by blast
  have t2: "mma8491_drdy (e_status (\<lambda>n. 0)) d0 w0 =
      (- EIO, w0\<lparr>byte_reads := byte_reads w0 + 150,
         trace := trace w0 @ poll_rounds 150 @ [Dev_Err (''data not ready'' @ [CHR 0x0A])]\<rparr>)"
    using drdy_status_bytes [OF b2, of d0] r2 by blast
  show ?thesis
    unfolding t1 t2 by (simp add: w0_def)
qed

text \<open>
  C8. When the status read of attempt \<open>k\<close> (the earlier attempts having read a
  status that was neither an error nor ready) returns a negative value, the poller
  returns that very value at once: the trace ends with that read, so there are \<open>k + 1\<close>
  status reads and \<open>k\<close> sleeps in all, and none after the failing read.
\<close>

theorem drdy_bus_error:
  assumes "k < 150"
    and "\<forall>j<k. keeps_polling (byte_result e (byte_reads w + j))"
    and "byte_result e (byte_reads w + k) <s 0"
  shows "mma8491_drdy e d w =
      (byte_result e (byte_reads w + k),
       w\<lparr>byte_reads := byte_reads w + k + 1,
         trace := trace w @ poll_rounds k @ [Read_Byte_Data MMA8491_STATUS]\<rparr>)
    \<and> status_reads (emitted w (snd (mma8491_drdy e d w))) = k + 1
    \<and> length (filter (\<lambda>ev. ev = Msleep 20) (emitted w (snd (mma8491_drdy e d w)))) = k"
proof -
  have res: "mma8491_drdy e d w =
      (byte_result e (byte_reads w + k),
       w\<lparr>byte_reads := byte_reads w + k + 1,
         trace := trace w @ poll_rounds k @ [Read_Byte_Data MMA8491_STATUS]\<rparr>)"
    using assms by (rule drdy_at_error)
  have sl: "length (filter (\<lambda>ev. ev = Msleep 20) (poll_rounds k)) = k"
    by (induction k) (simp_all add: poll_rounds_def)
  show ?thesis
    unfolding res
    by (simp add: status_reads_append status_reads_poll_rounds sl) (simp add: status_reads_def)
qed

theorem drdy_bus_error_witness:
  "mma8491_drdy (e_status (\<lambda>n. if n = 2 then - 5 else 0)) d0 w0 =
     (- 5, w0\<lparr>byte_reads := 3, trace := poll_rounds 2 @ [Read_Byte_Data MMA8491_STATUS]\<rparr>)"
proof -
  have k: "(2 :: nat) < 150" by simp
  have p: "\<forall>j<2. keeps_polling (byte_result (e_status (\<lambda>n. if n = 2 then - 5 else 0)) (byte_reads w0 + j))"
    by (simp add: e_status_def w0_def keeps_polling_def DRDY_7 word_sless_alt)
  have n: "byte_result (e_status (\<lambda>n. if n = 2 then - 5 else 0)) (byte_reads w0 + 2) <s 0"
    by (simp add: e_status_def w0_def word_sless_alt)
  show ?thesis
    using drdy_bus_error [OF k p n, of d0] by (simp add: w0_def e_status_def)
qed

subsection \<open>The sample decoder\<close>

lemma sign_extend32_shift: "unat (word_of_int (31 - 13) :: u8) = 18"
  by simp

lemma decode_bits: "mma8491_decode x = signed_take_bit 13 (drop_bit 2 (ucast x :: s32))"
  unfolding mma8491_decode_def sign_extend32_def Let_def sign_extend32_shift
  by (rule bit_word_eqI) (auto simp add: bit_simps)

lemma sint_decode_bits: "sint (mma8491_decode x) = signed_take_bit 13 (drop_bit 2 (uint x))"
  unfolding decode_bits
  by (rule bit_eqI)
    (auto simp add: bit_simps bit_signed_iff bit_unsigned_iff min_def not_le dest: bit_imp_le_length)

lemma uint_be16_to_cpu:
  "uint (be16_to_cpu buf i) = uint (buf (2 * i)) * 256 + uint (buf (2 * i + 1))"
proof -
  let ?hi = "uint (buf (2 * i))" and ?lo = "uint (buf (2 * i + 1))"
  have lo: "0 \<le> ?lo" "?lo < 256"
    using uint_bounded [of "buf (2 * i + 1)"] by simp_all
  have hi: "0 \<le> ?hi" "?hi < 256"
    using uint_bounded [of "buf (2 * i)"] by simp_all
  have cat: "concat_bit 8 ?lo ?hi = ?lo mod 256 + ?hi * 256"
    by (simp add: concat_bit_eq take_bit_eq_mod push_bit_eq_mult)
  have "uint (be16_to_cpu buf i) = take_bit 16 (concat_bit 8 ?lo ?hi)"
    unfolding be16_to_cpu_def word_cat_eq' uint_word_of_int_eq by simp
  also have "\<dots> = (?lo mod 256 + ?hi * 256) mod 65536"
    unfolding cat by (simp add: take_bit_eq_mod)
  also have "\<dots> = ?hi * 256 + ?lo"
    using lo hi by simp
  finally show ?thesis .
qed

lemma signed_field:
  assumes "0 \<le> f" "f < 2 ^ 14"
  shows "signed_take_bit 13 (f :: int) = (if f < 2 ^ 13 then f else f - 2 ^ 14)"
proof (cases "f < 2 ^ 13")
  case True
  with assms have "(f + 8192) mod 16384 = f + 8192"
    by simp
  with True show ?thesis
    by (simp add: signed_take_bit_eq_take_bit_shift take_bit_eq_mod)
next
  case False
  have "(f + 8192) mod 16384 = (f + 8192 - 16384) mod 16384"
    by (simp only: minus_mod_self2)
  also from False assms have "\<dots> = f + 8192 - 16384"
    by (intro mod_pos_pos_trivial) simp_all
  finally show ?thesis
    using False by (simp add: signed_take_bit_eq_take_bit_shift take_bit_eq_mod)
qed

lemma sint_decode: "sint (mma8491_decode x) = spec_decode (uint x)"
proof -
  have "uint x < 2 ^ 16"
    using uint_bounded [of x] by simp
  then have "0 \<le> uint x div 4" "uint x div 4 < 2 ^ 14"
    by (simp_all add: pos_imp_zdiv_nonneg_iff)
  then show ?thesis
    by (simp add: sint_decode_bits spec_decode_def drop_bit_eq_div signed_field Let_def)
qed

lemma decode_range: "- (2 ^ 13) \<le> sint (mma8491_decode x) \<and> sint (mma8491_decode x) < 2 ^ 13"
proof -
  have "uint x < 2 ^ 16"
    using uint_bounded [of x] by simp
  then have "0 \<le> uint x div 4" "uint x div 4 < 2 ^ 14"
    by (simp_all add: pos_imp_zdiv_nonneg_iff)
  then show ?thesis
    by (simp add: sint_decode spec_decode_def Let_def)
qed

lemma decode_minimum: "sint (mma8491_decode 0x8000) = spec_field_min"
  by (simp add: mma8491_decode_def sign_extend32_def spec_field_min_def)

text \<open>
  C3. For every raw axis word, most significant byte first in the buffer, the value
  the on-demand read stores is the word shifted right by two (its 14-bit field) and
  sign-extended from bit 13: the two's complement reading of the 14-bit field, and the
  same number as \<open>signed_take_bit 13\<close> of the shifted word.
\<close>

theorem decode_sign_extend:
  "sint (mma8491_decode (be16_to_cpu buf i))
      = spec_decode (uint (buf (2 * i)) * 256 + uint (buf (2 * i + 1)))
   \<and> sint (mma8491_decode (be16_to_cpu buf i))
      = signed_take_bit 13 (drop_bit 2 (uint (buf (2 * i)) * 256 + uint (buf (2 * i + 1))))"
  unfolding uint_be16_to_cpu [symmetric]
  by (rule conjI [OF sint_decode sint_decode_bits])

text \<open>
  C4, as stated: decoding \<open>0x3FFC\<close> yields the least value of the field and decoding
  \<open>0x0004\<close> yields 1. The first half fails: \<open>0x3FFC\<close> has bit 13 of its field clear
  and decodes to a positive number.
\<close>

theorem decode_0x3FFC_not_minimum:
  "\<not> (sint (mma8491_decode 0x3FFC) = spec_field_min \<and> sint (mma8491_decode 0x0004) = 1)"
  by (simp add: mma8491_decode_def sign_extend32_def spec_field_min_def)

text \<open>
  C4, amended: decoding the raw big-endian input \<open>0x3FFC\<close> yields 4095, and decoding
  \<open>0x0004\<close> yields 1.
\<close>

theorem decode_fixed_inputs:
  "sint (mma8491_decode 0x3FFC) = 4095 \<and> sint (mma8491_decode 0x0004) = 1"
  by (simp add: mma8491_decode_def sign_extend32_def)

subsection \<open>What a call may emit, whatever the bus answers\<close>

lemma drdy_loop_stop:
  assumes "\<not> (0 < t \<and> keeps_polling (byte_result e (byte_reads w)))"
  shows "drdy_loop t e w = (- EIO, w\<lparr>trace := trace w @ [Dev_Err (''data not ready'' @ [CHR 0x0A])]\<rparr>)
    \<or> drdy_loop t e w = (byte_result e (byte_reads w),
          w\<lparr>byte_reads := Suc (byte_reads w), trace := trace w @ [Read_Byte_Data MMA8491_STATUS]\<rparr>)
        \<and> byte_result e (byte_reads w) <s 0
    \<or> drdy_loop t e w = (0,
          w\<lparr>byte_reads := Suc (byte_reads w), trace := trace w @ [Read_Byte_Data MMA8491_STATUS]\<rparr>)"
  using assms
  by (subst (1 2 3) drdy_loop.simps)
    (auto simp add: keeps_polling_def i2c_smbus_read_byte_data_def dev_err_def)

lemma EIO_negative: "- EIO <s 0"
  by (simp add: EIO_def word_sless_alt)

lemma drdy_loop_stop_world:
  assumes "\<not> (0 < t \<and> keeps_polling (byte_result e (byte_reads w)))"
  shows "\<exists>n evs. snd (drdy_loop t e w) = w\<lparr>byte_reads := n, trace := trace w @ evs\<rparr>
     \<and> list_all poll_event evs"
proof -
  from drdy_loop_stop [OF assms]
  have "snd (drdy_loop t e w) = w\<lparr>byte_reads := byte_reads w,
          trace := trace w @ [Dev_Err (''data not ready'' @ [CHR 0x0A])]\<rparr>
       \<and> list_all poll_event [Dev_Err (''data not ready'' @ [CHR 0x0A])]
    \<or> snd (drdy_loop t e w) = w\<lparr>byte_reads := Suc (byte_reads w),
          trace := trace w @ [Read_Byte_Data MMA8491_STATUS]\<rparr>
       \<and> list_all poll_event [Read_Byte_Data MMA8491_STATUS]"
    by auto
  then show ?thesis by blast
qed

lemma drdy_loop_world:
  "\<exists>n evs. snd (drdy_loop t e w) = w\<lparr>byte_reads := n, trace := trace w @ evs\<rparr>
     \<and> list_all poll_event evs"
proof (induction "nat t" arbitrary: t w)
  case 0
  then have "\<not> (0 < t \<and> keeps_polling (byte_result e (byte_reads w)))"
    by simp
  then show ?case by (rule drdy_loop_stop_world)
next
  case (Suc m)
  show ?case
  proof (cases "keeps_polling (byte_result e (byte_reads w))")
    case True
    from Suc.hyps(2) have t: "0 < t" "m = nat (t - 1)"
      by simp_all
    have step: "drdy_loop t e w = drdy_loop (t - 1) e (polled 1 w)"
      using t True by (simp add: drdy_loop_step)
    from Suc.hyps(1) [OF t(2), of "polled 1 w"] obtain n evs where
      "snd (drdy_loop (t - 1) e (polled 1 w))
        = (polled 1 w)\<lparr>byte_reads := n, trace := trace (polled 1 w) @ evs\<rparr>"
      "list_all poll_event evs"
      by blast
    then have "snd (drdy_loop t e w) = w\<lparr>byte_reads := n, trace := trace w @ (poll_rounds 1 @ evs)\<rparr>
        \<and> list_all poll_event (poll_rounds 1 @ evs)"
      by (simp add: step polled_def poll_rounds_def)
    then show ?thesis by blast
  next
    case False
    then have "\<not> (0 < t \<and> keeps_polling (byte_result e (byte_reads w)))"
      by simp
    then show ?thesis by (rule drdy_loop_stop_world)
  qed
qed

lemma drdy_loop_result: "fst (drdy_loop t e w) <s 0 \<or> fst (drdy_loop t e w) = 0"
proof (induction "nat t" arbitrary: t w)
  case 0
  then have "\<not> (0 < t \<and> keeps_polling (byte_result e (byte_reads w)))"
    by simp
  then show ?case
    using drdy_loop_stop [of t e w] EIO_negative by auto
next
  case (Suc m)
  show ?case
  proof (cases "keeps_polling (byte_result e (byte_reads w))")
    case True
    from Suc.hyps(2) have t: "0 < t" "m = nat (t - 1)"
      by simp_all
    have step: "drdy_loop t e w = drdy_loop (t - 1) e (polled 1 w)"
      using t True by (simp add: drdy_loop_step)
    show ?thesis
      unfolding step by (rule Suc.hyps(1) [OF t(2)])
  next
    case False
    then have "\<not> (0 < t \<and> keeps_polling (byte_result e (byte_reads w)))"
      by simp
    then show ?thesis
      using drdy_loop_stop [of t e w] EIO_negative by auto
  qed
qed

lemma mma8491_drdy_world:
  "\<exists>n evs. snd (mma8491_drdy e d w) = w\<lparr>byte_reads := n, trace := trace w @ evs\<rparr>
     \<and> list_all poll_event evs"
  unfolding mma8491_drdy_def by (rule drdy_loop_world)

lemma mma8491_drdy_result: "fst (mma8491_drdy e d w) <s 0 \<or> fst (mma8491_drdy e d w) = 0"
  unfolding mma8491_drdy_def by (rule drdy_loop_result)

lemma poll_event_not_block: "list_all poll_event evs \<Longrightarrow> filter is_block_read evs = []"
  by (induction evs) (auto elim: poll_event.elims)

lemma poll_event_read_phase: "list_all poll_event evs \<Longrightarrow> list_all read_phase_event evs"
  by (induction evs) (auto elim: poll_event.elims)

lemma mma8491_read_failed:
  assumes "fst (mma8491_drdy e d w) <s 0"
  shows "mma8491_read e d w = mma8491_drdy e d w"
  using assms by (cases "mma8491_drdy e d w") (simp add: mma8491_read_def)

lemma mma8491_read_polled:
  assumes "\<not> fst (mma8491_drdy e d w) <s 0"
  shows "mma8491_read e d w =
    (block_result e,
     (snd (mma8491_drdy e d w))\<lparr>trace := trace (snd (mma8491_drdy e d w))
        @ [Read_Block_Data MMA8491_OUT_X 6]\<rparr>)"
  using assms
  by (cases "mma8491_drdy e d w") (simp add: mma8491_read_def i2c_smbus_read_i2c_block_data_def)

lemma mma8491_read_world:
  "\<exists>n evs. snd (mma8491_read e d w) = w\<lparr>byte_reads := n, trace := trace w @ evs\<rparr>
     \<and> list_all read_phase_event evs"
proof -
  obtain n evs where dr: "snd (mma8491_drdy e d w) = w\<lparr>byte_reads := n, trace := trace w @ evs\<rparr>"
    and pe: "list_all poll_event evs"
    using mma8491_drdy_world by blast
  show ?thesis
  proof (cases "fst (mma8491_drdy e d w) <s 0")
    case True
    with dr pe show ?thesis
      using poll_event_read_phase mma8491_read_failed by metis
  next
    case False
    then have "snd (mma8491_read e d w) =
        w\<lparr>byte_reads := n, trace := trace w @ (evs @ [Read_Block_Data MMA8491_OUT_X 6])\<rparr>"
      using dr by (simp add: mma8491_read_polled)
    moreover have "list_all read_phase_event (evs @ [Read_Block_Data MMA8491_OUT_X 6])"
      using pe by (simp add: poll_event_read_phase)
    ultimately show ?thesis by blast
  qed
qed

text \<open>
  C9. The burst reader runs the poller first. If the poller fails, the burst reader
  returns the poller's result and world as they are, and no block read is among its
  events. If the poller succeeds (it then returned 0), there is exactly one block read,
  of six bytes from register \<open>0x01\<close>, it comes after every event of the poller, and
  the return value of the burst reader is that of the block read, a negative one
  included.
\<close>

theorem mma8491_read_burst:
  "(fst (mma8491_drdy e d w) <s 0 \<longrightarrow>
      mma8491_read e d w = mma8491_drdy e d w
      \<and> filter is_block_read (emitted w (snd (mma8491_read e d w))) = [])
   \<and> (\<not> fst (mma8491_drdy e d w) <s 0 \<longrightarrow>
      fst (mma8491_drdy e d w) = 0
      \<and> fst (mma8491_read e d w) = block_result e
      \<and> emitted w (snd (mma8491_read e d w))
          = emitted w (snd (mma8491_drdy e d w)) @ [Read_Block_Data 0x01 6]
      \<and> filter is_block_read (emitted w (snd (mma8491_read e d w))) = [Read_Block_Data 0x01 6])"
proof -
  obtain n evs where dr: "snd (mma8491_drdy e d w) = w\<lparr>byte_reads := n, trace := trace w @ evs\<rparr>"
    and pe: "list_all poll_event evs"
    using mma8491_drdy_world by blast
  have nb: "filter is_block_read evs = []"
    using pe by (rule poll_event_not_block)
  show ?thesis
  proof (cases "fst (mma8491_drdy e d w) <s 0")
    case True
    then show ?thesis
      by (simp add: mma8491_read_failed dr nb)
  next
    case False
    moreover from False have "fst (mma8491_drdy e d w) = 0"
      using mma8491_drdy_result [of e d w] by simp
    ultimately show ?thesis
      by (simp add: mma8491_read_polled dr nb MMA8491_OUT_X_def)
  qed
qed

lemma drdy_ready_at_once:
  assumes "byte_result e (byte_reads w) = 7"
  shows "mma8491_drdy e d w =
    (0, w\<lparr>byte_reads := byte_reads w + 1, trace := trace w @ [Read_Byte_Data MMA8491_STATUS]\<rparr>)"
  using drdy_at_ready [of 0 e w d] assms
  by (simp add: DRDY_7 word_sless_alt poll_rounds_def)

lemma drdy_error_at_once:
  assumes "byte_result e (byte_reads w) <s 0"
  shows "mma8491_drdy e d w =
    (byte_result e (byte_reads w),
     w\<lparr>byte_reads := byte_reads w + 1, trace := trace w @ [Read_Byte_Data MMA8491_STATUS]\<rparr>)"
  using drdy_at_error [of 0 e w d] assms
  by (simp add: poll_rounds_def)

theorem mma8491_read_burst_witness:
  "mma8491_read (e_status (\<lambda>k. - 5)) d0 w0 = mma8491_drdy (e_status (\<lambda>k. - 5)) d0 w0
   \<and> fst (mma8491_read (e_status (\<lambda>k. - 5)) d0 w0) = - 5
   \<and> emitted w0 (snd (mma8491_read (e_status (\<lambda>k. - 5)) d0 w0)) = [Read_Byte_Data 0x00]
   \<and> fst (mma8491_read (e_status (\<lambda>k. 7)) d0 w0) = 6
   \<and> emitted w0 (snd (mma8491_read (e_status (\<lambda>k. 7)) d0 w0))
       = [Read_Byte_Data 0x00, Read_Block_Data 0x01 6]
   \<and> fst (mma8491_read e_block_error d0 w0) = - 121
   \<and> emitted w0 (snd (mma8491_read e_block_error d0 w0))
       = [Read_Byte_Data 0x00, Read_Block_Data 0x01 6]"
proof -
  have neg: "(- 5 :: s32) <s 0"
    by (simp add: word_sless_alt)
  have bad: "mma8491_drdy (e_status (\<lambda>k. - 5)) d0 w0 =
      (- 5, w0\<lparr>byte_reads := byte_reads w0 + 1, trace := trace w0 @ [Read_Byte_Data MMA8491_STATUS]\<rparr>)"
    using drdy_error_at_once [of "e_status (\<lambda>k. - 5)" w0 d0] neg by (simp add: e_status_def)
  have good: "mma8491_drdy (e_status (\<lambda>k. 7)) d0 w0 =
      (0, w0\<lparr>byte_reads := byte_reads w0 + 1, trace := trace w0 @ [Read_Byte_Data MMA8491_STATUS]\<rparr>)"
    by (rule drdy_ready_at_once) (simp add: e_status_def)
  have good': "mma8491_drdy e_block_error d0 w0 =
      (0, w0\<lparr>byte_reads := byte_reads w0 + 1, trace := trace w0 @ [Read_Byte_Data MMA8491_STATUS]\<rparr>)"
    by (rule drdy_ready_at_once) (simp add: e_block_error_def)
  have blk: "block_result (e_status (\<lambda>k. 7)) = 6" "block_result e_block_error = - 121"
    by (simp_all add: e_status_def e_block_error_def)
  show ?thesis
    using mma8491_read_burst [of "e_status (\<lambda>k. - 5)" d0 w0]
      mma8491_read_burst [of "e_status (\<lambda>k. 7)" d0 w0]
      mma8491_read_burst [of e_block_error d0 w0]
    by (simp add: bad good good' neg blk MMA8491_STATUS_def)
qed

subsection \<open>The on-demand read\<close>

lemma read_raw_world:
  assumes "\<not> buffer_enabled w"
  shows "\<exists>n evs. snd (snd (mma8491_read_raw e d w chan IIO_CHAN_INFO_RAW)) =
      w\<lparr>gpio := (gpio w)(rst_gpio d := False), byte_reads := n,
        trace := trace w @ [Gpio_Set (rst_gpio d) True, Mutex_Lock] @ evs
                   @ [Mutex_Unlock, Gpio_Set (rst_gpio d) False]\<rparr>
    \<and> list_all read_phase_event evs"
proof -
  let ?w2 = "mutex_lock (gpio_set_value_cansleep (rst_gpio d) True w)"
  obtain n evs where rd: "snd (mma8491_read e d ?w2) = ?w2\<lparr>byte_reads := n, trace := trace ?w2 @ evs\<rparr>"
    and ph: "list_all read_phase_event evs"
    using mma8491_read_world by blast
  have "snd (snd (mma8491_read_raw e d w chan IIO_CHAN_INFO_RAW)) =
      w\<lparr>gpio := (gpio w)(rst_gpio d := False), byte_reads := n,
        trace := trace w @ [Gpio_Set (rst_gpio d) True, Mutex_Lock] @ evs
                   @ [Mutex_Unlock, Gpio_Set (rst_gpio d) False]\<rparr>"
    using assms rd
    by (cases "mma8491_read e d ?w2")
      (simp add: mma8491_read_raw_def iio_buffer_enabled_def Let_def
        gpio_set_value_cansleep_def mutex_lock_def mutex_unlock_def)
  with ph show ?thesis by blast
qed

lemma reads_powered_read_phase:
  assumes "list_all read_phase_event evs"
  shows "reads_powered g True (evs @ rest) = reads_powered g True rest"
  using assms
proof (induction evs)
  case Nil
  then show ?case by simp
next
  case (Cons ev evs)
  then show ?case by (cases ev) simp_all
qed

lemma read_raw_reads_powered:
  assumes "\<not> buffer_enabled w"
  shows "reads_powered (rst_gpio d) lvl
    (emitted w (snd (snd (mma8491_read_raw e d w chan IIO_CHAN_INFO_RAW))))"
proof -
  obtain n evs where "snd (snd (mma8491_read_raw e d w chan IIO_CHAN_INFO_RAW)) =
      w\<lparr>gpio := (gpio w)(rst_gpio d := False), byte_reads := n,
        trace := trace w @ [Gpio_Set (rst_gpio d) True, Mutex_Lock] @ evs
                   @ [Mutex_Unlock, Gpio_Set (rst_gpio d) False]\<rparr>"
    and "list_all read_phase_event evs"
    using read_raw_world [OF assms] by blast
  then show ?thesis
    by (simp add: reads_powered_read_phase)
qed

text \<open>
  C5. An on-demand read of the raw value attempted while the buffer is enabled returns
  \<open>-EBUSY\<close> and leaves the world as it found it: nothing is emitted, so there is no
  bus transaction, no change of the enable line and no mutex operation.
\<close>

theorem read_raw_busy:
  assumes "buffer_enabled w"
  shows "mma8491_read_raw e d w chan IIO_CHAN_INFO_RAW = (- EBUSY, None, w)
    \<and> emitted w (snd (snd (mma8491_read_raw e d w chan IIO_CHAN_INFO_RAW))) = []"
  using assms by (simp add: mma8491_read_raw_def iio_buffer_enabled_def emitted_def)

theorem read_raw_busy_witness:
  "buffer_enabled w_streaming
   \<and> mma8491_read_raw (e_status (\<lambda>k. 7)) d0 w_streaming (MMA8491_CHANNEL IIO_MOD_X 0) IIO_CHAN_INFO_RAW
       = (- 16, None, w_streaming)"
proof -
  have s: "buffer_enabled w_streaming"
    by (simp add: w_streaming_def)
  show ?thesis
    using read_raw_busy [OF s, of "e_status (\<lambda>k. 7)" d0 "MMA8491_CHANNEL IIO_MOD_X 0"] s
    by (simp add: EBUSY_def)
qed

lemma read_raw_ready_at_once:
  assumes "\<not> buffer_enabled w" "byte_result e (byte_reads w) = 7"
  shows "mma8491_read_raw e d w chan IIO_CHAN_INFO_RAW =
    ((if block_result e <s 0 then block_result e else IIO_VAL_INT),
     (if block_result e <s 0 then None
      else Some (mma8491_decode (be16_to_cpu (block_buf e) (scan_index chan)))),
     w\<lparr>gpio := (gpio w)(rst_gpio d := False), byte_reads := byte_reads w + 1,
       trace := trace w @ [Gpio_Set (rst_gpio d) True, Mutex_Lock,
         Read_Byte_Data MMA8491_STATUS, Read_Block_Data MMA8491_OUT_X 6,
         Mutex_Unlock, Gpio_Set (rst_gpio d) False]\<rparr>)"
proof -
  let ?w2 = "mutex_lock (gpio_set_value_cansleep (rst_gpio d) True w)"
  have "byte_result e (byte_reads ?w2) = 7"
    using assms(2) by (simp add: mutex_lock_def gpio_set_value_cansleep_def)
  then have dr: "mma8491_drdy e d ?w2 =
      (0, ?w2\<lparr>byte_reads := byte_reads ?w2 + 1,
             trace := trace ?w2 @ [Read_Byte_Data MMA8491_STATUS]\<rparr>)"
    by (rule drdy_ready_at_once)
  have "mma8491_read e d ?w2 =
      (block_result e, ?w2\<lparr>byte_reads := byte_reads ?w2 + 1,
             trace := trace ?w2 @ [Read_Byte_Data MMA8491_STATUS, Read_Block_Data MMA8491_OUT_X 6]\<rparr>)"
    using mma8491_read_polled [of e d ?w2] by (simp add: dr word_sless_alt)
  then show ?thesis
    using assms(1)
    by (simp add: mma8491_read_raw_def iio_buffer_enabled_def Let_def
        gpio_set_value_cansleep_def mutex_lock_def mutex_unlock_def)
qed

lemma read_raw_event_order:
  assumes "\<not> buffer_enabled w"
  shows "\<exists>evs. emitted w (snd (snd (mma8491_read_raw e d w chan IIO_CHAN_INFO_RAW))) =
        [Gpio_Set (rst_gpio d) True, Mutex_Lock] @ evs @ [Mutex_Unlock, Gpio_Set (rst_gpio d) False]
      \<and> list_all read_phase_event evs"
proof -
  obtain n evs where "snd (snd (mma8491_read_raw e d w chan IIO_CHAN_INFO_RAW)) =
      w\<lparr>gpio := (gpio w)(rst_gpio d := False), byte_reads := n,
        trace := trace w @ [Gpio_Set (rst_gpio d) True, Mutex_Lock] @ evs
                   @ [Mutex_Unlock, Gpio_Set (rst_gpio d) False]\<rparr>"
    and "list_all read_phase_event evs"
    using read_raw_world [OF assms] by blast
  then show ?thesis
    by simp
qed

text \<open>
  C7 fails. On a device that is ready at once, the on-demand read asserts the enable
  line before it takes the lock and deasserts it after it has released the lock, so the
  lock does not span the power window. Two such reads can then run as \<open>racing_reads\<close>:
  each caller issues exactly the events of its call, the mutex is respected, and yet a
  caller changes the enable line while the other holds the lock, and the bus reads of
  the second caller find the line deasserted.
\<close>

theorem read_raw_lock_inside_power_window:
  "\<not> lock_spans_power_window (rst_gpio d0)
       (emitted w0 (snd (snd (mma8491_read_raw (e_status (\<lambda>k. 7)) d0 w0
          (MMA8491_CHANNEL IIO_MOD_X 0) IIO_CHAN_INFO_RAW))))
   \<and> events_of Caller_A racing_reads =
       emitted w0 (snd (snd (mma8491_read_raw (e_status (\<lambda>k. 7)) d0 w0
          (MMA8491_CHANNEL IIO_MOD_X 0) IIO_CHAN_INFO_RAW)))
   \<and> events_of Caller_B racing_reads =
       emitted
         (snd (snd (mma8491_read_raw (e_status (\<lambda>k. 7)) d0 w0
            (MMA8491_CHANNEL IIO_MOD_X 0) IIO_CHAN_INFO_RAW)))
         (snd (snd (mma8491_read_raw (e_status (\<lambda>k. 7)) d0
            (snd (snd (mma8491_read_raw (e_status (\<lambda>k. 7)) d0 w0
               (MMA8491_CHANNEL IIO_MOD_X 0) IIO_CHAN_INFO_RAW)))
            (MMA8491_CHANNEL IIO_MOD_X 0) IIO_CHAN_INFO_RAW)))
   \<and> mutex_respected None racing_reads
   \<and> touched_under_lock None racing_reads
   \<and> \<not> reads_powered (rst_gpio d0) (gpio w0 (rst_gpio d0)) (map snd racing_reads)"
proof -
  let ?e = "e_status (\<lambda>k. 7)"
  let ?wA = "w0\<lparr>gpio := (gpio w0)(rst_gpio d0 := False), byte_reads := byte_reads w0 + 1,
       trace := trace w0 @ [Gpio_Set (rst_gpio d0) True, Mutex_Lock,
         Read_Byte_Data MMA8491_STATUS, Read_Block_Data MMA8491_OUT_X 6,
         Mutex_Unlock, Gpio_Set (rst_gpio d0) False]\<rparr>"
  have env: "block_result ?e = 6" "\<not> (6 :: s32) <s 0"
    by (simp_all add: e_status_def word_sless_alt)
  have a: "\<not> buffer_enabled w0" "byte_result ?e (byte_reads w0) = 7"
    by (simp_all add: w0_def e_status_def)
  have b: "\<not> buffer_enabled ?wA" "byte_result ?e (byte_reads ?wA) = 7"
    by (simp_all add: w0_def e_status_def)
  have ra: "snd (snd (mma8491_read_raw ?e d0 w0 (MMA8491_CHANNEL IIO_MOD_X 0) IIO_CHAN_INFO_RAW)) = ?wA"
    by (simp add: read_raw_ready_at_once [OF a] env)
  have rb: "emitted ?wA
      (snd (snd (mma8491_read_raw ?e d0 ?wA (MMA8491_CHANNEL IIO_MOD_X 0) IIO_CHAN_INFO_RAW)))
      = [Gpio_Set (rst_gpio d0) True, Mutex_Lock,
         Read_Byte_Data MMA8491_STATUS, Read_Block_Data MMA8491_OUT_X 6,
         Mutex_Unlock, Gpio_Set (rst_gpio d0) False]"
    unfolding read_raw_ready_at_once [OF b] by (simp add: emitted_def)
  have ea: "emitted w0 ?wA
      = [Gpio_Set (rst_gpio d0) True, Mutex_Lock,
         Read_Byte_Data MMA8491_STATUS, Read_Block_Data MMA8491_OUT_X 6,
         Mutex_Unlock, Gpio_Set (rst_gpio d0) False]"
    by (simp add: emitted_def w0_def)
  have lvl: "gpio w0 (rst_gpio d0) = False" "rst_gpio d0 = 7"
    by (simp_all add: w0_def d0_def)
  have c1: "\<not> lock_spans_power_window (rst_gpio d0)
       (emitted w0 (snd (snd (mma8491_read_raw ?e d0 w0
          (MMA8491_CHANNEL IIO_MOD_X 0) IIO_CHAN_INFO_RAW))))"
    unfolding ra ea by (simp add: lock_spans_power_window_def)
  have c2: "events_of Caller_A racing_reads =
       emitted w0 (snd (snd (mma8491_read_raw ?e d0 w0
          (MMA8491_CHANNEL IIO_MOD_X 0) IIO_CHAN_INFO_RAW)))"
    unfolding ra ea
    by (simp add: racing_reads_def events_of_def lvl MMA8491_STATUS_def MMA8491_OUT_X_def)
  have c3: "events_of Caller_B racing_reads =
       emitted
         (snd (snd (mma8491_read_raw ?e d0 w0 (MMA8491_CHANNEL IIO_MOD_X 0) IIO_CHAN_INFO_RAW)))
         (snd (snd (mma8491_read_raw ?e d0
            (snd (snd (mma8491_read_raw ?e d0 w0 (MMA8491_CHANNEL IIO_MOD_X 0) IIO_CHAN_INFO_RAW)))
            (MMA8491_CHANNEL IIO_MOD_X 0) IIO_CHAN_INFO_RAW)))"
    unfolding ra rb
    by (simp add: racing_reads_def events_of_def lvl MMA8491_STATUS_def MMA8491_OUT_X_def)
  have c4: "mutex_respected None racing_reads"
    by (simp add: racing_reads_def)
  have c5: "touched_under_lock None racing_reads"
    by (simp add: racing_reads_def)
  have c6: "\<not> reads_powered (rst_gpio d0) (gpio w0 (rst_gpio d0)) (map snd racing_reads)"
    by (simp add: racing_reads_def lvl)
  from c1 c2 c3 c4 c5 c6 show ?thesis
    by (intro conjI)
qed

subsection \<open>The triggered pipeline\<close>

lemma read_phase_not_push: "list_all read_phase_event evs \<Longrightarrow> filter is_push evs = []"
proof (induction evs)
  case Nil
  then show ?case by simp
next
  case (Cons ev evs)
  then show ?case by (cases ev) simp_all
qed

lemma read_phase_not_done:
  "list_all read_phase_event evs \<Longrightarrow> filter (\<lambda>ev. ev = Trigger_Notify_Done) evs = []"
proof (induction evs)
  case Nil
  then show ?case by simp
next
  case (Cons ev evs)
  then show ?case by (cases ev) simp_all
qed

lemma read_phase_not_power:
  "list_all read_phase_event evs \<Longrightarrow>
    filter (\<lambda>ev. ev = Gpio_Set g v \<or> ev = Mutex_Lock \<or> ev = Mutex_Unlock) evs = []"
proof (induction evs)
  case Nil
  then show ?case by simp
next
  case (Cons ev evs)
  then show ?case by (cases ev) simp_all
qed

lemma trigger_handler_world:
  "\<exists>n evs. mma8491_trigger_handler e d w =
      (IRQ_HANDLED,
       w\<lparr>byte_reads := n,
         trace := trace w @ evs
           @ (if fst (mma8491_read e d w) <s 0 then []
              else [Push_To_Buffers (map (block_buf e) [0..<16]) (time_ns e)])
           @ [Trigger_Notify_Done]\<rparr>)
    \<and> list_all read_phase_event evs"
proof -
  obtain n evs where rd: "snd (mma8491_read e d w) = w\<lparr>byte_reads := n, trace := trace w @ evs\<rparr>"
    and ph: "list_all read_phase_event evs"
    using mma8491_read_world by blast
  have "mma8491_trigger_handler e d w =
      (IRQ_HANDLED,
       w\<lparr>byte_reads := n,
         trace := trace w @ evs
           @ (if fst (mma8491_read e d w) <s 0 then []
              else [Push_To_Buffers (map (block_buf e) [0..<16]) (time_ns e)])
           @ [Trigger_Notify_Done]\<rparr>)"
    using rd
    by (cases "mma8491_read e d w")
      (simp add: mma8491_trigger_handler_def Let_def iio_push_to_buffers_with_timestamp_def
        iio_trigger_notify_done_def iio_get_time_ns_def)
  with ph show ?thesis by blast
qed

text \<open>
  C6. Every trigger event returns \<open>IRQ_HANDLED\<close> and emits exactly one completion
  notice, as its last event, whether the acquisition succeeded or not. The buffer with
  its timestamp is pushed exactly when the burst reader returned a non-negative value,
  and then once; after a poll timeout or a bus error on the status or the block read
  (all of them negative returns) nothing is pushed.
\<close>

theorem trigger_handler_push_iff:
  "fst (mma8491_trigger_handler e d w) = IRQ_HANDLED
   \<and> last (emitted w (snd (mma8491_trigger_handler e d w))) = Trigger_Notify_Done
   \<and> filter (\<lambda>ev. ev = Trigger_Notify_Done) (emitted w (snd (mma8491_trigger_handler e d w)))
       = [Trigger_Notify_Done]
   \<and> filter is_push (emitted w (snd (mma8491_trigger_handler e d w))) =
       (if fst (mma8491_read e d w) <s 0 then []
        else [Push_To_Buffers (map (block_buf e) [0..<16]) (time_ns e)])"
proof -
  obtain n evs where "mma8491_trigger_handler e d w =
      (IRQ_HANDLED,
       w\<lparr>byte_reads := n,
         trace := trace w @ evs
           @ (if fst (mma8491_read e d w) <s 0 then []
              else [Push_To_Buffers (map (block_buf e) [0..<16]) (time_ns e)])
           @ [Trigger_Notify_Done]\<rparr>)"
    and "list_all read_phase_event evs"
    using trigger_handler_world by blast
  then show ?thesis
    by (simp add: read_phase_not_push read_phase_not_done)
qed

lemma trigger_handler_ready_at_once:
  assumes "byte_result e (byte_reads w) = 7"
  shows "mma8491_trigger_handler e d w =
    (IRQ_HANDLED,
     w\<lparr>byte_reads := byte_reads w + 1,
       trace := trace w @ [Read_Byte_Data MMA8491_STATUS, Read_Block_Data MMA8491_OUT_X 6]
         @ (if block_result e <s 0 then []
            else [Push_To_Buffers (map (block_buf e) [0..<16]) (time_ns e)])
         @ [Trigger_Notify_Done]\<rparr>)"
proof -
  have dr: "mma8491_drdy e d w =
      (0, w\<lparr>byte_reads := byte_reads w + 1, trace := trace w @ [Read_Byte_Data MMA8491_STATUS]\<rparr>)"
    using assms by (rule drdy_ready_at_once)
  have "mma8491_read e d w =
      (block_result e, w\<lparr>byte_reads := byte_reads w + 1,
         trace := trace w @ [Read_Byte_Data MMA8491_STATUS, Read_Block_Data MMA8491_OUT_X 6]\<rparr>)"
    using mma8491_read_polled [of e d w] by (simp add: dr word_sless_alt)
  then show ?thesis
    by (simp add: mma8491_trigger_handler_def Let_def iio_push_to_buffers_with_timestamp_def
        iio_trigger_notify_done_def iio_get_time_ns_def)
qed

theorem trigger_handler_push_iff_witness:
  "filter is_push (emitted w0 (snd (mma8491_trigger_handler e_block_error d0 w0))) = []
   \<and> filter (\<lambda>ev. ev = Trigger_Notify_Done)
       (emitted w0 (snd (mma8491_trigger_handler e_block_error d0 w0))) = [Trigger_Notify_Done]
   \<and> filter is_push (emitted w0 (snd (mma8491_trigger_handler (e_status (\<lambda>k. 7)) d0 w0)))
       = [Push_To_Buffers (map sample_bytes [0..<16]) 1000]"
proof -
  have bad: "mma8491_read e_block_error d0 w0 =
      (- 121, w0\<lparr>byte_reads := byte_reads w0 + 1,
         trace := trace w0 @ [Read_Byte_Data MMA8491_STATUS, Read_Block_Data MMA8491_OUT_X 6]\<rparr>)"
    using mma8491_read_polled [of e_block_error d0 w0]
      drdy_ready_at_once [of e_block_error w0 d0]
    by (simp add: e_block_error_def word_sless_alt)
  have good: "mma8491_read (e_status (\<lambda>k. 7)) d0 w0 =
      (6, w0\<lparr>byte_reads := byte_reads w0 + 1,
         trace := trace w0 @ [Read_Byte_Data MMA8491_STATUS, Read_Block_Data MMA8491_OUT_X 6]\<rparr>)"
    using mma8491_read_polled [of "e_status (\<lambda>k. 7)" d0 w0]
      drdy_ready_at_once [of "e_status (\<lambda>k. 7)" w0 d0]
    by (simp add: e_status_def word_sless_alt)
  have env: "block_buf (e_status (\<lambda>k. 7)) = sample_bytes" "time_ns (e_status (\<lambda>k. 7)) = 1000"
    by (simp_all add: e_status_def)
  show ?thesis
    using trigger_handler_push_iff [of e_block_error d0 w0]
      trigger_handler_push_iff [of "e_status (\<lambda>k. 7)" d0 w0]
    by (simp add: bad good env word_sless_alt)
qed

lemma trigger_handler_never_powers:
  "gpio (snd (mma8491_trigger_handler e d w)) = gpio w
   \<and> filter (\<lambda>ev. ev = Gpio_Set g v \<or> ev = Mutex_Lock \<or> ev = Mutex_Unlock)
        (emitted w (snd (mma8491_trigger_handler e d w))) = []"
proof -
  obtain n evs where "mma8491_trigger_handler e d w =
      (IRQ_HANDLED,
       w\<lparr>byte_reads := n,
         trace := trace w @ evs
           @ (if fst (mma8491_read e d w) <s 0 then []
              else [Push_To_Buffers (map (block_buf e) [0..<16]) (time_ns e)])
           @ [Trigger_Notify_Done]\<rparr>)"
    and "list_all read_phase_event evs"
    using trigger_handler_world by blast
  then show ?thesis
    by (simp add: read_phase_not_power)
qed

text \<open>
  C1 fails on the triggered path. At a trigger event on a device whose enable line is
  low and whose bus answers ready at once, the handler reads the status register and the
  axis registers and never sets the enable line: the power invariant does not hold of
  its events. The on-demand read on the same inputs brackets the same two bus reads with
  the enable line, and the invariant holds of its events.
\<close>

theorem trigger_handler_reads_unpowered:
  "emitted w0 (snd (mma8491_trigger_handler (e_status (\<lambda>k. 7)) d0 w0)) =
     [Read_Byte_Data 0x00, Read_Block_Data 0x01 6,
      Push_To_Buffers (map sample_bytes [0..<16]) 1000, Trigger_Notify_Done]
   \<and> \<not> reads_powered (rst_gpio d0) (gpio w0 (rst_gpio d0))
        (emitted w0 (snd (mma8491_trigger_handler (e_status (\<lambda>k. 7)) d0 w0)))
   \<and> emitted w0 (snd (snd (mma8491_read_raw (e_status (\<lambda>k. 7)) d0 w0
        (MMA8491_CHANNEL IIO_MOD_X 0) IIO_CHAN_INFO_RAW))) =
     [Gpio_Set 7 True, Mutex_Lock, Read_Byte_Data 0x00, Read_Block_Data 0x01 6,
      Mutex_Unlock, Gpio_Set 7 False]
   \<and> reads_powered (rst_gpio d0) (gpio w0 (rst_gpio d0))
        (emitted w0 (snd (snd (mma8491_read_raw (e_status (\<lambda>k. 7)) d0 w0
           (MMA8491_CHANNEL IIO_MOD_X 0) IIO_CHAN_INFO_RAW))))"
proof -
  have i: "\<not> buffer_enabled w0" "byte_result (e_status (\<lambda>k. 7)) (byte_reads w0) = 7"
    by (simp_all add: w0_def e_status_def)
  have env: "block_buf (e_status (\<lambda>k. 7)) = sample_bytes" "time_ns (e_status (\<lambda>k. 7)) = 1000"
    "block_result (e_status (\<lambda>k. 7)) = 6"
    by (simp_all add: e_status_def)
  have lvl: "gpio w0 (rst_gpio d0) = False" "rst_gpio d0 = 7"
    by (simp_all add: w0_def d0_def)
  show ?thesis
    by (simp add: trigger_handler_ready_at_once [OF i(2)] read_raw_ready_at_once [OF i] env lvl
        word_sless_alt MMA8491_STATUS_def MMA8491_OUT_X_def)
qed

lemma negative_not_IIO_VAL_INT: "ret <s 0 \<Longrightarrow> ret \<noteq> IIO_VAL_INT"
  by (auto simp add: IIO_VAL_INT_def word_sless_alt)

lemma read_raw_value_unbiased:
  "(fst (mma8491_read_raw e d w chan IIO_CHAN_INFO_RAW) = IIO_VAL_INT \<longrightarrow>
      map_option sint (fst (snd (mma8491_read_raw e d w chan IIO_CHAN_INFO_RAW)))
        = Some (spec_reported_value 0
            (uint (block_buf e (2 * scan_index chan)) * 256
              + uint (block_buf e (2 * scan_index chan + 1)))))
   \<and> (fst (mma8491_read_raw e d w chan IIO_CHAN_INFO_RAW) \<noteq> IIO_VAL_INT \<longrightarrow>
        fst (snd (mma8491_read_raw e d w chan IIO_CHAN_INFO_RAW)) = None)
   \<and> mma8491_read_raw e d w chan IIO_CHAN_INFO_CALIBBIAS = (- EINVAL, None, w)"
proof -
  let ?w2 = "mutex_lock (gpio_set_value_cansleep (rst_gpio d) True w)"
  have busy: "- EBUSY \<noteq> IIO_VAL_INT"
    by (simp add: EBUSY_def IIO_VAL_INT_def)
  have val: "sint (mma8491_decode (be16_to_cpu (block_buf e) (scan_index chan)))
      = spec_reported_value 0
            (uint (block_buf e (2 * scan_index chan)) * 256
              + uint (block_buf e (2 * scan_index chan + 1)))"
    by (simp add: spec_reported_value_def sint_decode uint_be16_to_cpu)
  have raw: "(fst (mma8491_read_raw e d w chan IIO_CHAN_INFO_RAW) = IIO_VAL_INT \<longrightarrow>
      fst (snd (mma8491_read_raw e d w chan IIO_CHAN_INFO_RAW))
        = Some (mma8491_decode (be16_to_cpu (block_buf e) (scan_index chan))))
    \<and> (fst (mma8491_read_raw e d w chan IIO_CHAN_INFO_RAW) \<noteq> IIO_VAL_INT \<longrightarrow>
        fst (snd (mma8491_read_raw e d w chan IIO_CHAN_INFO_RAW)) = None)"
    using busy negative_not_IIO_VAL_INT
    by (cases "mma8491_read e d ?w2")
      (auto simp add: mma8491_read_raw_def Let_def)
  have bias: "mma8491_read_raw e d w chan IIO_CHAN_INFO_CALIBBIAS = (- EINVAL, None, w)"
    by (simp add: mma8491_read_raw_def IIO_CHAN_INFO_CALIBBIAS_def IIO_CHAN_INFO_RAW_def)
  from raw val bias show ?thesis
    by (metis option.simps(9))
qed

text \<open>
  C10 fails. Every axis channel advertises the calibration bias among its queries
  (bit \<open>IIO_CHAN_INFO_CALIBBIAS\<close> of \<open>info_mask_separate\<close>), but the driver registers no
  \<open>write_raw\<close>, so a caller cannot set a bias, and the query of the bias on the X
  channel of an idle device returns \<open>-EINVAL\<close>, stores no value and does nothing.
\<close>

theorem calibbias_advertised_not_served:
  "bit (info_mask_separate (MMA8491_CHANNEL IIO_MOD_X 0)) (nat IIO_CHAN_INFO_CALIBBIAS)
   \<and> bit (info_mask_separate (MMA8491_CHANNEL IIO_MOD_Y 1)) (nat IIO_CHAN_INFO_CALIBBIAS)
   \<and> bit (info_mask_separate (MMA8491_CHANNEL IIO_MOD_Z 2)) (nat IIO_CHAN_INFO_CALIBBIAS)
   \<and> write_raw mma8491_info = None
   \<and> read_raw mma8491_info = Some mma8491_read_raw
   \<and> mma8491_read_raw (e_status (\<lambda>k. 7)) d0 w0 (MMA8491_CHANNEL IIO_MOD_X 0)
        IIO_CHAN_INFO_CALIBBIAS = (- 22, None, w0)"
proof -
  have adv: "bit (info_mask_separate (MMA8491_CHANNEL axis idx)) (nat IIO_CHAN_INFO_CALIBBIAS)"
    for axis idx
    by (simp add: MMA8491_CHANNEL_def BIT_def IIO_CHAN_INFO_CALIBBIAS_def IIO_CHAN_INFO_RAW_def
        bit_or_iff bit_push_bit_iff)
  have q: "mma8491_read_raw (e_status (\<lambda>k. 7)) d0 w0 (MMA8491_CHANNEL IIO_MOD_X 0)
        IIO_CHAN_INFO_CALIBBIAS = (- 22, None, w0)"
    by (simp add: mma8491_read_raw_def IIO_CHAN_INFO_CALIBBIAS_def IIO_CHAN_INFO_RAW_def EINVAL_def)
  show ?thesis
    using adv q by (simp add: mma8491_info_def)
qed

end
